theory Spec2Isabelle
  imports Main "HOL-Library.Word"
begin

section \<open>The generated identifier header \<open>Wwise_IDs.h\<close>\<close>

text \<open>
  The header consists of one outer namespace \<open>AK\<close> holding five inner namespaces; each
  inner namespace is a sequence of declarations of the shape
  \<^verbatim>\<open>static const AkUniqueID NAME = <decimal literal>U;\<close>
  A declaration is kept as the source writes it: whether it is \<open>const\<close>-qualified, its
  name, and the mathematical value of its decimal literal. The value the constant holds
  is the literal converted to the declared type.
\<close>

subsection \<open>Data model\<close>

text \<open>
  Modelled from the spec: the type \<open>AkUniqueID\<close> is declared in
  \<open>AK/SoundEngine/Common/AkTypes.h\<close>, which the header includes and which is not among the
  sources; the specification gives it as an unsigned 32-bit integer.
\<close>

type_synonym AkUniqueID = "32 word"

record decl =
  is_const :: bool
  name :: string
  literal :: nat

record namespace =
  ns_name :: string
  decls :: "decl list"

text \<open>Initialising an \<open>AkUniqueID\<close> from an unsigned literal converts it modulo \<open>2 ^ 32\<close>.\<close>

definition ident :: "decl \<Rightarrow> AkUniqueID" where
  "ident d = of_nat (literal d)"

text \<open>The line \<^verbatim>\<open>static const AkUniqueID n = vU;\<close>.\<close>

definition static_const :: "string \<Rightarrow> nat \<Rightarrow> decl" where
  "static_const n v = \<lparr>is_const = True, name = n, literal = v\<rparr>"

subsection \<open>The five namespaces, in source order\<close>

definition EVENTS :: namespace where
  "EVENTS = \<lparr>ns_name = ''EVENTS'', decls =
     [static_const ''PLAY_AMB_ROOM2_LP'' 2291298689,
      static_const ''PLAY_AMB_ROOM_LP'' 3112684807,
      static_const ''PLAY_MUS_4_4_100BPM_THEME_NL'' 513704729,
      static_const ''PLAY_SFX_BUNNYABSORB_NL'' 1567933058,
      static_const ''PLAY_SFX_BUNNYIMPACT_NL'' 4038925685,
      static_const ''PLAY_SFX_BUNNYMOVE_NL'' 1400485278,
      static_const ''PLAY_SFX_BUNNYROLL_NL'' 4212669292,
      static_const ''PLAY_SFX_WOODBLOCK_IMPACT_WOOD'' 841695155]\<rparr>"

definition GAME_PARAMETERS :: namespace where
  "GAME_PARAMETERS = \<lparr>ns_name = ''GAME_PARAMETERS'', decls =
     [static_const ''VELOCITY'' 3519441192]\<rparr>"

definition BUSSES :: namespace where
  "BUSSES = \<lparr>ns_name = ''BUSSES'', decls =
     [static_const ''MAIN_AUDIO_BUS'' 2246998526]\<rparr>"

definition AUX_BUSSES :: namespace where
  "AUX_BUSSES = \<lparr>ns_name = ''AUX_BUSSES'', decls =
     [static_const ''ROOM'' 2077253480]\<rparr>"

definition AUDIO_DEVICES :: namespace where
  "AUDIO_DEVICES = \<lparr>ns_name = ''AUDIO_DEVICES'', decls =
     [static_const ''NO_OUTPUT'' 2317455096,
      static_const ''SYSTEM'' 3859886410]\<rparr>"

definition AK :: "namespace list" where
  "AK = [EVENTS, GAME_PARAMETERS, BUSSES, AUX_BUSSES, AUDIO_DEVICES]"

text \<open>Every declaration of a table, namespace after namespace.\<close>

definition all_decls :: "namespace list \<Rightarrow> decl list" where
  "all_decls t = concat (map decls t)"

subsection \<open>Using the table\<close>

text \<open>
  A constant is reached by its qualified name \<open>AK::NS::NAME\<close>: the namespace is found by
  name, then the declaration inside it. A name that is not declared does not compile.
\<close>

datatype error = Undeclared | AssignToConst

definition find_decl :: "namespace list \<Rightarrow> string \<Rightarrow> string \<Rightarrow> decl option" where
  "find_decl t ns n =
     (case find (\<lambda>s. ns_name s = ns) t of
        None \<Rightarrow> None
      | Some s \<Rightarrow> find (\<lambda>d. name d = n) (decls s))"

definition lookup :: "namespace list \<Rightarrow> string \<Rightarrow> string \<Rightarrow> error + AkUniqueID" where
  "lookup t ns n =
     (case find_decl t ns n of
        None \<Rightarrow> Inl Undeclared
      | Some d \<Rightarrow> Inr (ident d))"

text \<open>
  The only way a program could change a constant is an assignment to its qualified name.
  C++ rejects an assignment whose target is \<open>const\<close>-qualified; on a target that is not,
  the assignment stores the new value.
\<close>

definition store :: "string \<Rightarrow> string \<Rightarrow> nat \<Rightarrow> namespace \<Rightarrow> namespace" where
  "store ns n v s =
     (if ns_name s = ns
      then s\<lparr>decls := map (\<lambda>d. if name d = n then d\<lparr>literal := v\<rparr> else d) (decls s)\<rparr>
      else s)"

definition assign :: "namespace list \<Rightarrow> string \<Rightarrow> string \<Rightarrow> nat \<Rightarrow> error + namespace list" where
  "assign t ns n v =
     (case find_decl t ns n of
        None \<Rightarrow> Inl Undeclared
      | Some d \<Rightarrow> if is_const d then Inl AssignToConst else Inr (map (store ns n v) t))"

datatype access = Read string string | Assign string string nat

text \<open>One access of a client program; a rejected access leaves the table as it was.\<close>

fun step :: "namespace list \<Rightarrow> access \<Rightarrow> namespace list" where
  "step t (Read ns n) = t"
| "step t (Assign ns n v) = (case assign t ns n v of Inl e \<Rightarrow> t | Inr t' \<Rightarrow> t')"

fun run :: "namespace list \<Rightarrow> access list \<Rightarrow> namespace list" where
  "run t [] = t"
| "run t (a # as) = run (step t a) as"

section \<open>Properties\<close>

lemmas table_defs =
  AK_def EVENTS_def GAME_PARAMETERS_def BUSSES_def AUX_BUSSES_def AUDIO_DEVICES_def
  static_const_def

subsection \<open>Rejected assignments\<close>

lemma find_in_set: "find P xs = Some x \<Longrightarrow> x \<in> set xs"
  by (induction xs) (auto split: if_splits)

lemma find_decl_mem:
  assumes "find_decl t ns n = Some d"
  shows "d \<in> set (all_decls t)"
proof -
  from assms obtain s where s: "find (\<lambda>s. ns_name s = ns) t = Some s"
    and d: "find (\<lambda>d. name d = n) (decls s) = Some d"
    by (auto simp: find_decl_def split: option.splits)
  from s have "s \<in> set t" by (rule find_in_set)
  moreover from d have "d \<in> set (decls s)" by (rule find_in_set)
  ultimately show ?thesis by (auto simp: all_decls_def)
qed

lemma assign_rejected:
  assumes "list_all is_const (all_decls t)"
  shows "isl (assign t ns n v)"
proof (cases "find_decl t ns n")
  case None
  then show ?thesis by (simp add: assign_def)
next
  case (Some d)
  then have "d \<in> set (all_decls t)" by (rule find_decl_mem)
  with assms have "is_const d" by (simp add: list_all_iff)
  with Some show ?thesis by (simp add: assign_def)
qed

lemma step_const:
  assumes "list_all is_const (all_decls t)"
  shows "step t a = t"
proof (cases a)
  case (Read ns n)
  then show ?thesis by simp
next
  case (Assign ns n v)
  from assign_rejected [OF assms, of ns n v] obtain e where "assign t ns n v = Inl e"
    by (auto simp: isl_def)
  with Assign show ?thesis by simp
qed

lemma run_const:
  "list_all is_const (all_decls t) \<Longrightarrow> run t prog = t"
  by (induction prog) (simp_all add: step_const)

lemma AK_all_const: "list_all is_const (all_decls AK)"
  by (simp add: all_decls_def table_defs)

text \<open>
  The assignment is not idle in the model: on a declaration that is not
  \<open>const\<close>-qualified it goes through and changes the value.
\<close>

lemma assign_non_const_stores:
  "assign [\<lparr>ns_name = ''A'', decls = [\<lparr>is_const = False, name = ''X'', literal = 1\<rparr>]\<rparr>]
     ''A'' ''X'' 7 =
   Inr [\<lparr>ns_name = ''A'', decls = [\<lparr>is_const = False, name = ''X'', literal = 7\<rparr>]\<rparr>]"
  by (simp add: assign_def find_decl_def store_def)

subsection \<open>The claims\<close>

text \<open>
  C1: the five constants sampled by the specification have exactly the listed values:
  \<open>EVENTS::PLAY_SFX_BUNNYROLL_NL\<close> is 4212669292, \<open>GAME_PARAMETERS::VELOCITY\<close> is
  3519441192, \<open>BUSSES::MAIN_AUDIO_BUS\<close> is 2246998526, \<open>AUX_BUSSES::ROOM\<close> is 2077253480
  and \<open>AUDIO_DEVICES::NO_OUTPUT\<close> is 2317455096.
\<close>

theorem sampled_constants:
  "lookup AK ''EVENTS'' ''PLAY_SFX_BUNNYROLL_NL'' = Inr 4212669292 \<and>
   lookup AK ''GAME_PARAMETERS'' ''VELOCITY'' = Inr 3519441192 \<and>
   lookup AK ''BUSSES'' ''MAIN_AUDIO_BUS'' = Inr 2246998526 \<and>
   lookup AK ''AUX_BUSSES'' ''ROOM'' = Inr 2077253480 \<and>
   lookup AK ''AUDIO_DEVICES'' ''NO_OUTPUT'' = Inr 2317455096"
  by (simp add: lookup_def find_decl_def ident_def table_defs)

text \<open>
  C2: every one of the 13 constants of the table is an unsigned 32-bit integer: the
  literal written in the header lies between 0 and \<open>2 ^ 32 - 1\<close>, so the
  \<open>AkUniqueID\<close> it initialises holds exactly that number.
\<close>

theorem literals_fit_32_bits:
  "\<forall>d \<in> set (all_decls AK).
     literal d \<le> 2 ^ 32 - 1 \<and> unat (ident d) = literal d \<and> unat (ident d) \<le> 2 ^ 32 - 1"
  by (simp add: all_decls_def ident_def table_defs)

theorem literals_fit_32_bits_witness:
  "static_const ''SYSTEM'' 3859886410 \<in> set (all_decls AK) \<and>
   literal (static_const ''SYSTEM'' 3859886410) \<le> 2 ^ 32 - 1 \<and>
   unat (ident (static_const ''SYSTEM'' 3859886410)) = 3859886410"
  using literals_fit_32_bits [rule_format, of "static_const ''SYSTEM'' 3859886410"]
  by (simp add: all_decls_def table_defs)

text \<open>
  C3: inside each single namespace (Events, GameParameters, Busses, AuxBusses,
  AudioDevices) the names of the constants are pairwise distinct.
\<close>

theorem names_distinct_per_namespace:
  "\<forall>s \<in> set AK. distinct (map name (decls s))"
  by (simp add: table_defs)

theorem names_distinct_per_namespace_witness:
  "EVENTS \<in> set AK \<and> length (decls EVENTS) = 8 \<and> distinct (map name (decls EVENTS))"
  using names_distinct_per_namespace [rule_format, of EVENTS]
  by (simp add: table_defs)

text \<open>
  C4: the table consists of exactly five namespaces, \<open>EVENTS\<close>, \<open>GAME_PARAMETERS\<close>,
  \<open>BUSSES\<close>, \<open>AUX_BUSSES\<close> and \<open>AUDIO_DEVICES\<close> (the categories Events, GameParameters,
  Busses, AuxBusses and AudioDevices), each occurring once, and no others.
\<close>

theorem namespaces_fixed:
  "map ns_name AK =
     [''EVENTS'', ''GAME_PARAMETERS'', ''BUSSES'', ''AUX_BUSSES'', ''AUDIO_DEVICES''] \<and>
   set (map ns_name AK) =
     {''EVENTS'', ''GAME_PARAMETERS'', ''BUSSES'', ''AUX_BUSSES'', ''AUDIO_DEVICES''} \<and>
   distinct (map ns_name AK) \<and> length AK = 5"
  by (simp add: table_defs)

text \<open>
  C5: no namespace of the table is empty: each of the five holds at least one constant,
  and in particular \<open>EVENTS\<close> does.
\<close>

theorem no_namespace_empty:
  "(\<forall>s \<in> set AK. decls s \<noteq> [] \<and> 0 < length (decls s)) \<and> decls EVENTS \<noteq> []"
  by (simp add: table_defs)

theorem no_namespace_empty_witness:
  "AUX_BUSSES \<in> set AK \<and> decls AUX_BUSSES \<noteq> [] \<and> 0 < length (decls AUX_BUSSES)"
  using no_namespace_empty [THEN conjunct1, rule_format, of AUX_BUSSES]
  by (simp add: table_defs)

text \<open>
  C6: the table is immutable. Every declaration is \<open>const\<close>-qualified, so every
  assignment to a constant of the table is rejected and there is no operation that
  changes it; whatever sequence of reads and attempted assignments a client program
  performs, the table afterwards is the table as generated, and every lookup by
  qualified name gives the same result as before.
\<close>

theorem table_immutable:
  "list_all is_const (all_decls AK) \<and>
   (\<forall>ns n v. \<exists>e. assign AK ns n v = Inl e) \<and>
   run AK prog = AK \<and>
   lookup (run AK prog) ns n = lookup AK ns n"
  using assign_rejected [OF AK_all_const]
  by (auto simp: AK_all_const run_const isl_def)

text \<open>
  C8: the table has exactly 13 entries: 8 in \<open>EVENTS\<close>, 1 in \<open>GAME_PARAMETERS\<close>, 1 in
  \<open>BUSSES\<close>, 1 in \<open>AUX_BUSSES\<close> and 2 in \<open>AUDIO_DEVICES\<close>. Besides the five sampled
  constants, the bindings are \<open>PLAY_AMB_ROOM2_LP\<close> = 2291298689, \<open>PLAY_AMB_ROOM_LP\<close> =
  3112684807, \<open>PLAY_MUS_4_4_100BPM_THEME_NL\<close> = 513704729, \<open>PLAY_SFX_BUNNYABSORB_NL\<close> =
  1567933058, \<open>PLAY_SFX_BUNNYIMPACT_NL\<close> = 4038925685, \<open>PLAY_SFX_BUNNYMOVE_NL\<close> =
  1400485278, \<open>PLAY_SFX_WOODBLOCK_IMPACT_WOOD\<close> = 841695155 and
  \<open>AUDIO_DEVICES::SYSTEM\<close> = 3859886410.
\<close>

theorem table_contents:
  "map (\<lambda>s. (ns_name s, length (decls s))) AK =
     [(''EVENTS'', 8), (''GAME_PARAMETERS'', 1), (''BUSSES'', 1), (''AUX_BUSSES'', 1),
      (''AUDIO_DEVICES'', 2)] \<and>
   length (all_decls AK) = 13 \<and>
   lookup AK ''EVENTS'' ''PLAY_AMB_ROOM2_LP'' = Inr 2291298689 \<and>
   lookup AK ''EVENTS'' ''PLAY_AMB_ROOM_LP'' = Inr 3112684807 \<and>
   lookup AK ''EVENTS'' ''PLAY_MUS_4_4_100BPM_THEME_NL'' = Inr 513704729 \<and>
   lookup AK ''EVENTS'' ''PLAY_SFX_BUNNYABSORB_NL'' = Inr 1567933058 \<and>
   lookup AK ''EVENTS'' ''PLAY_SFX_BUNNYIMPACT_NL'' = Inr 4038925685 \<and>
   lookup AK ''EVENTS'' ''PLAY_SFX_BUNNYMOVE_NL'' = Inr 1400485278 \<and>
   lookup AK ''EVENTS'' ''PLAY_SFX_WOODBLOCK_IMPACT_WOOD'' = Inr 841695155 \<and>
   lookup AK ''AUDIO_DEVICES'' ''SYSTEM'' = Inr 3859886410"
  by (simp add: all_decls_def lookup_def find_decl_def ident_def table_defs)

text \<open>
  C9: the 13 values of the table are pairwise distinct over the whole table, also
  between constants of different namespaces.
\<close>

theorem values_distinct:
  "distinct (map ident (all_decls AK)) \<and> length (map ident (all_decls AK)) = 13"
  by (simp add: all_decls_def ident_def table_defs)

text \<open>
  C10: every constant of the table is strictly positive: none of them is 0.
\<close>

theorem values_nonzero:
  "\<forall>d \<in> set (all_decls AK). ident d \<noteq> 0 \<and> 0 < unat (ident d)"
  by (simp add: all_decls_def ident_def table_defs)

theorem values_nonzero_witness:
  "static_const ''PLAY_MUS_4_4_100BPM_THEME_NL'' 513704729 \<in> set (all_decls AK) \<and>
   ident (static_const ''PLAY_MUS_4_4_100BPM_THEME_NL'' 513704729) \<noteq> 0 \<and>
   unat (ident (static_const ''PLAY_MUS_4_4_100BPM_THEME_NL'' 513704729)) = 513704729"
  using values_nonzero [rule_format, of "static_const ''PLAY_MUS_4_4_100BPM_THEME_NL'' 513704729"]
  by (simp add: all_decls_def ident_def table_defs)

end
